theory Spec2Isabelle
  imports Complex_Main
begin

section \<open>Numbers and errors of the Python program\<close>

text \<open>
  The program computes with IEEE doubles (numpy \<open>float64\<close>) and Python integers.
  A double is modelled as an exact real number or one of the three special values;
  rounding, overflow to infinity and the sign of zero are abstracted away. What is kept
  is what the control flow of the program depends on: NaN and the infinities are
  absorbing in arithmetic the way IEEE 754 says, every comparison with NaN is false, and
  a division by zero does not raise (numpy) but yields an infinity or NaN.
\<close>

datatype fl = Fin real | PInf | NInf | NaN

datatype error = IndexError | ZeroDivisionError | ValueError | OverflowError

fun isnan :: "fl \<Rightarrow> bool" where
  "isnan NaN = True"
| "isnan _ = False"

fun isfinite :: "fl \<Rightarrow> bool" where
  "isfinite (Fin _) = True"
| "isfinite _ = False"

fun fneg :: "fl \<Rightarrow> fl" where
  "fneg (Fin a) = Fin (- a)"
| "fneg PInf = NInf"
| "fneg NInf = PInf"
| "fneg NaN = NaN"

fun fadd :: "fl \<Rightarrow> fl \<Rightarrow> fl" where
  "fadd (Fin a) (Fin b) = Fin (a + b)"
| "fadd NaN _ = NaN"
| "fadd _ NaN = NaN"
| "fadd PInf NInf = NaN"
| "fadd NInf PInf = NaN"
| "fadd PInf _ = PInf"
| "fadd _ PInf = PInf"
| "fadd NInf _ = NInf"
| "fadd _ NInf = NInf"

definition fsub :: "fl \<Rightarrow> fl \<Rightarrow> fl" where
  "fsub a b = fadd a (fneg b)"

text \<open>The sign of a non-NaN value, as an infinity of that sign; zero has none.\<close>

fun inf_of_sign :: "real \<Rightarrow> fl" where
  "inf_of_sign a = (if a = 0 then NaN else if 0 < a then PInf else NInf)"

fun fmul :: "fl \<Rightarrow> fl \<Rightarrow> fl" where
  "fmul (Fin a) (Fin b) = Fin (a * b)"
| "fmul NaN _ = NaN"
| "fmul _ NaN = NaN"
| "fmul PInf (Fin b) = inf_of_sign b"
| "fmul (Fin a) PInf = inf_of_sign a"
| "fmul NInf (Fin b) = inf_of_sign (- b)"
| "fmul (Fin a) NInf = inf_of_sign (- a)"
| "fmul PInf PInf = PInf"
| "fmul NInf NInf = PInf"
| "fmul PInf NInf = NInf"
| "fmul NInf PInf = NInf"

text \<open>
  Division as numpy does it for \<open>float64\<close>: a zero divisor gives an infinity of the
  dividend's sign, or NaN for \<open>0 / 0\<close> (the divisors of this program are Python integers
  converted to doubles, so a zero divisor is \<open>+0.0\<close>).
\<close>

fun fdiv :: "fl \<Rightarrow> fl \<Rightarrow> fl" where
  "fdiv (Fin a) (Fin b) = (if b = 0 then inf_of_sign a else Fin (a / b))"
| "fdiv NaN _ = NaN"
| "fdiv _ NaN = NaN"
| "fdiv (Fin a) PInf = Fin 0"
| "fdiv (Fin a) NInf = Fin 0"
| "fdiv PInf (Fin b) = (if 0 \<le> b then PInf else NInf)"
| "fdiv NInf (Fin b) = (if 0 \<le> b then NInf else PInf)"
| "fdiv PInf _ = NaN"
| "fdiv NInf _ = NaN"

fun fle :: "fl \<Rightarrow> fl \<Rightarrow> bool" where
  "fle (Fin a) (Fin b) = (a \<le> b)"
| "fle NaN _ = False"
| "fle _ NaN = False"
| "fle NInf _ = True"
| "fle _ PInf = True"
| "fle PInf _ = False"
| "fle _ NInf = False"

fun flt :: "fl \<Rightarrow> fl \<Rightarrow> bool" where
  "flt (Fin a) (Fin b) = (a < b)"
| "flt NaN _ = False"
| "flt _ NaN = False"
| "flt PInf _ = False"
| "flt _ NInf = False"
| "flt NInf _ = True"
| "flt _ PInf = True"

definition fge :: "fl \<Rightarrow> fl \<Rightarrow> bool" where
  "fge a b = fle b a"

definition fgt :: "fl \<Rightarrow> fl \<Rightarrow> bool" where
  "fgt a b = flt b a"

definition fl_of_int :: "int \<Rightarrow> fl" where
  "fl_of_int i = Fin (of_int i)"

section \<open>convert_duration_to_bins\<close>

text \<open>
  \<open>convert_duration_to_bins(duration_days, nbins, segment_size, duration_type)\<close>.
  The durations and the segment size are Python floats, \<open>nbins\<close> is a Python integer.
  The quotient \<open>duration_days*nbins/segment_size\<close> raises ZeroDivisionError for a zero
  segment size; it is computed in the two branches that use it and not in the third.
\<close>

definition convert_duration_to_bins :: "real \<Rightarrow> int \<Rightarrow> real \<Rightarrow> string \<Rightarrow> error + int" where
  "convert_duration_to_bins duration_days nbins segment_size duration_type =
     (if duration_type = ''min'' then
        (if segment_size = 0 then Inl ZeroDivisionError
         else Inr (max \<lfloor>duration_days * of_int nbins / segment_size\<rfloor> 1))
      else if duration_type = ''max'' then
        (if segment_size = 0 then Inl ZeroDivisionError
         else Inr (max 1 (min \<lceil>duration_days * of_int nbins / segment_size\<rceil> nbins)))
      else Inr 0)"

section \<open>calc_sr_max\<close>

text \<open>
  Sequence access as Python does it for a non-negative index: out of range raises
  IndexError. A slice never raises.
\<close>

definition getitem :: "'a list \<Rightarrow> nat \<Rightarrow> error + 'a" where
  "getitem xs i = (if i < length xs then Inr (xs ! i) else Inl IndexError)"

definition slice :: "'a list \<Rightarrow> nat \<Rightarrow> nat \<Rightarrow> 'a list" where
  "slice xs i j = take (j - i) (drop i xs)"

text \<open>A \<open>for\<close> loop over a list of values whose body may raise.\<close>

fun for_loop :: "'a list \<Rightarrow> ('a \<Rightarrow> 's \<Rightarrow> error + 's) \<Rightarrow> 's \<Rightarrow> error + 's" where
  "for_loop [] body st = Inr st"
| "for_loop (x # xs) body st =
     (case body x st of Inl e \<Rightarrow> Inl e | Inr st' \<Rightarrow> for_loop xs body st')"

text \<open>The four values the search keeps for the best pair found so far.\<close>

record sr_best =
  best_SR :: fl
  thisDuration :: fl
  thisDepth :: fl
  thisMidTime :: fl

definition sr_init :: sr_best where
  "sr_init = \<lparr>best_SR = NaN, thisDuration = NaN, thisDepth = NaN, thisMidTime = NaN\<rparr>"

text \<open>
  The body of the inner loop of \<open>calc_sr_max\<close>, for the start bin \<open>i1\<close> and the end bin
  \<open>i2\<close>, on the state \<open>(s, r, best)\<close>. The helper \<open>extreme\<close> of the module \<open>utils\<close> is
  not part of the sources at hand and is a parameter. The arguments \<open>trial_segment\<close>,
  \<open>this_seg\<close> and \<open>lc_samplerate\<close> of the source are never read and are left out.
\<close>

definition sr_step ::
  "(fl list \<Rightarrow> int \<Rightarrow> fl) \<Rightarrow> int \<Rightarrow> int \<Rightarrow> int \<Rightarrow> int \<Rightarrow> fl list \<Rightarrow> fl list \<Rightarrow> int list
   \<Rightarrow> nat \<Rightarrow> nat \<Rightarrow> fl \<times> int \<times> sr_best \<Rightarrow> error + (fl \<times> int \<times> sr_best)" where
  "sr_step extreme n mindur r_min direction binTime binFlx ppb i1 i2 st =
     (case st of (s0, r0, b) \<Rightarrow>
      (case getitem binFlx i2 of Inl e \<Rightarrow> Inl e | Inr f \<Rightarrow>
      (case getitem ppb i2 of Inl e \<Rightarrow> Inl e | Inr p \<Rightarrow>
      let s = fadd s0 f; r = r0 + p in
      if mindur \<le> int i2 - int i1 \<and> r_min \<le> r
         \<and> fge (fmul (fl_of_int direction) s) (Fin 0) \<and> r < n
      then
        let sr = fdiv (fmul s s) (fl_of_int (r * (n - r))) in
        if fgt sr (best_SR b) \<or> isnan (best_SR b) then
          (case getitem binTime i2 of Inl e \<Rightarrow> Inl e | Inr t2 \<Rightarrow>
          (case getitem binTime i1 of Inl e \<Rightarrow> Inl e | Inr t1 \<Rightarrow>
            Inr (s, r, \<lparr>best_SR = sr,
                        thisDuration = fsub t2 t1,
                        thisDepth = extreme (slice binFlx i1 (i2 + 1)) direction,
                        thisMidTime = fdiv (fadd t2 t1) (Fin 2)\<rparr>)))
        else Inr (s, r, b)
      else Inr (s, r, b))))"

text \<open>
  One round of the outer loop: \<open>s = 0; r = 0\<close>, then the inner loop over
  \<open>range(i1, min(i1 + maxdur + 1, nbins))\<close>.
\<close>

definition sr_inner ::
  "(fl list \<Rightarrow> int \<Rightarrow> fl) \<Rightarrow> int \<Rightarrow> int \<Rightarrow> int \<Rightarrow> int \<Rightarrow> int \<Rightarrow> int \<Rightarrow> fl list \<Rightarrow> fl list
   \<Rightarrow> int list \<Rightarrow> nat \<Rightarrow> sr_best \<Rightarrow> error + sr_best" where
  "sr_inner extreme n nbins mindur maxdur r_min direction binTime binFlx ppb i1 b =
     (case for_loop [i1 ..< nat (min (int i1 + maxdur + 1) nbins)]
             (sr_step extreme n mindur r_min direction binTime binFlx ppb i1)
             (Fin 0, 0, b)
      of Inl e \<Rightarrow> Inl e | Inr (s, r, b') \<Rightarrow> Inr b')"

definition calc_sr_max ::
  "(fl list \<Rightarrow> int \<Rightarrow> fl) \<Rightarrow> int \<Rightarrow> int \<Rightarrow> int \<Rightarrow> int \<Rightarrow> int \<Rightarrow> int \<Rightarrow> fl list \<Rightarrow> fl list
   \<Rightarrow> int list \<Rightarrow> error + (fl \<times> fl \<times> fl \<times> fl)" where
  "calc_sr_max extreme n nbins mindur maxdur r_min direction binTime binFlx ppb =
     (case for_loop [0 ..< nat nbins]
             (sr_inner extreme n nbins mindur maxdur r_min direction binTime binFlx ppb)
             sr_init
      of Inl e \<Rightarrow> Inl e
       | Inr b \<Rightarrow> Inr (best_SR b, thisDuration b, thisDepth b, thisMidTime b))"

subsection \<open>The search as the specification words it\<close>

text \<open>
  The specification describes the search by the pairs of bins it scores. These
  definitions follow its words; the theorems below compare them with \<open>calc_sr_max\<close>.
  \<open>range_flux\<close> is \<open>s\<close>, the sum of \<open>binFlux[i1..i2]\<close> accumulated from 0 in ascending
  order, and \<open>range_points\<close> is \<open>r\<close>, the sum of \<open>pointsPerBin[i1..i2]\<close>.
\<close>

definition range_flux :: "fl list \<Rightarrow> nat \<Rightarrow> nat \<Rightarrow> fl" where
  "range_flux binFlx i1 i2 = foldl fadd (Fin 0) (slice binFlx i1 (i2 + 1))"

definition range_points :: "int list \<Rightarrow> nat \<Rightarrow> nat \<Rightarrow> int" where
  "range_points ppb i1 i2 = sum_list (slice ppb i1 (i2 + 1))"

definition spec_admissible ::
  "int \<Rightarrow> int \<Rightarrow> int \<Rightarrow> int \<Rightarrow> fl list \<Rightarrow> int list \<Rightarrow> nat \<times> nat \<Rightarrow> bool" where
  "spec_admissible n mindur r_min direction binFlx ppb p =
     (case p of (i1, i2) \<Rightarrow>
        mindur \<le> int i2 - int i1
      \<and> r_min \<le> range_points ppb i1 i2
      \<and> fge (fmul (fl_of_int direction) (range_flux binFlx i1 i2)) (Fin 0)
      \<and> range_points ppb i1 i2 < n)"

definition spec_SR :: "int \<Rightarrow> fl list \<Rightarrow> int list \<Rightarrow> nat \<times> nat \<Rightarrow> fl" where
  "spec_SR n binFlx ppb p =
     (case p of (i1, i2) \<Rightarrow>
        fdiv (fmul (range_flux binFlx i1 i2) (range_flux binFlx i1 i2))
             (fl_of_int (range_points ppb i1 i2 * (n - range_points ppb i1 i2))))"

text \<open>The pairs in the order of the two loops: ascending \<open>i1\<close>, then ascending \<open>i2\<close>.\<close>

definition spec_pairs :: "int \<Rightarrow> int \<Rightarrow> (nat \<times> nat) list" where
  "spec_pairs nbins maxdur =
     concat (map (\<lambda>i1. map (Pair i1) [i1 ..< nat (min (int i1 + maxdur + 1) nbins)])
                 [0 ..< nat nbins])"

text \<open>What is recorded when the pair \<open>(i1, i2)\<close> wins.\<close>

definition spec_record ::
  "(fl list \<Rightarrow> int \<Rightarrow> fl) \<Rightarrow> int \<Rightarrow> int \<Rightarrow> fl list \<Rightarrow> fl list \<Rightarrow> int list \<Rightarrow> nat \<times> nat
   \<Rightarrow> sr_best" where
  "spec_record extreme n direction binTime binFlx ppb p =
     (case p of (i1, i2) \<Rightarrow>
       \<lparr>best_SR = spec_SR n binFlx ppb (i1, i2),
        thisDuration = fsub (binTime ! i2) (binTime ! i1),
        thisDepth = extreme (slice binFlx i1 (i2 + 1)) direction,
        thisMidTime = fdiv (fadd (binTime ! i2) (binTime ! i1)) (Fin 2)\<rparr>)"

text \<open>The replacement rule: a candidate replaces the running best when its residue is
  strictly larger, or when the running best is still NaN.\<close>

definition spec_replace :: "sr_best \<Rightarrow> sr_best \<Rightarrow> sr_best" where
  "spec_replace b c = (if fgt (best_SR c) (best_SR b) \<or> isnan (best_SR b) then c else b)"

section \<open>bls_pulse\<close>

subsection \<open>The numpy functions it calls\<close>

text \<open>
  \<open>a.mean()\<close> of an array of finite values; the mean of an empty array is NaN (numpy
  warns and does not raise).
\<close>

definition mean :: "real list \<Rightarrow> fl" where
  "mean xs = (if xs = [] then NaN else Fin (sum_list xs / real (length xs)))"

text \<open>\<open>np.diff\<close>: the differences of adjacent elements.\<close>

fun diff :: "real list \<Rightarrow> real list" where
  "diff (x # y # ys) = (y - x) # diff (y # ys)"
| "diff _ = []"

text \<open>\<open>np.median\<close>: the middle of the sorted values, NaN for an empty array.\<close>

definition median :: "real list \<Rightarrow> fl" where
  "median xs =
     (let ys = sort xs; k = length ys in
      if k = 0 then NaN
      else if odd k then Fin (ys ! (k div 2))
      else Fin ((ys ! (k div 2 - 1) + ys ! (k div 2)) / 2))"

text \<open>
  \<open>np.linspace(start, stop, num)\<close>: \<open>num\<close> evenly spaced values from \<open>start\<close> to
  \<open>stop\<close> inclusive; a single value is \<open>start\<close>; a negative \<open>num\<close> raises ValueError.
\<close>

definition linspace :: "real \<Rightarrow> real \<Rightarrow> int \<Rightarrow> error + real list" where
  "linspace start stop num =
     (if num < 0 then Inl ValueError
      else if num = 1 then Inr [start]
      else Inr (map (\<lambda>k. start + real k * ((stop - start) / real_of_int (num - 1)))
                    [0 ..< nat num]))"

text \<open>
  \<open>np.digitize(x, bins)\<close> with \<open>right=False\<close>: for increasing bins the index \<open>i\<close> with
  \<open>bins[i-1] <= x < bins[i]\<close>, that is the number of edges not above \<open>x\<close>; for
  decreasing bins the index with \<open>bins[i-1] > x >= bins[i]\<close>; bins that are neither
  raise ValueError. Of no values it is the empty array.
\<close>

definition digitize :: "real list \<Rightarrow> real list \<Rightarrow> error + nat list" where
  "digitize xs bins =
     (if sorted bins then Inr (map (\<lambda>x. length (filter (\<lambda>e. e \<le> x) bins)) xs)
      else if sorted (rev bins) then Inr (map (\<lambda>x. length (filter (\<lambda>e. x < e) bins)) xs)
      else Inl ValueError)"

text \<open>\<open>a[bin_memberships == i]\<close>: the elements of \<open>a\<close> whose membership is \<open>i\<close>.\<close>

definition members :: "'a list \<Rightarrow> nat list \<Rightarrow> nat \<Rightarrow> 'a list" where
  "members a bin_memberships i =
     map fst (filter (\<lambda>am. snd am = i) (zip a bin_memberships))"

subsection \<open>Binning one segment\<close>

text \<open>
  Lines 186 to 191: the bin edges of segment \<open>jj\<close>, the bin of every sample, and per bin
  the mean time, the mean flux and the number of points.
\<close>

definition bin_segment ::
  "real \<Rightarrow> nat \<Rightarrow> int \<Rightarrow> real list \<Rightarrow> real list \<Rightarrow> error + (fl list \<times> fl list \<times> int list)" where
  "bin_segment segment_size jj nbins this_seg this_flux_seg =
     (case linspace (real jj * segment_size) (real (jj + 1) * segment_size) (nbins + 1) of
        Inl e \<Rightarrow> Inl e
      | Inr bin_slices \<Rightarrow>
     (case digitize this_seg bin_slices of
        Inl e \<Rightarrow> Inl e
      | Inr bin_memberships \<Rightarrow>
          Inr (map (\<lambda>i. mean (members this_seg bin_memberships i)) [1 ..< length bin_slices],
               map (\<lambda>i. mean (members this_flux_seg bin_memberships i)) [1 ..< length bin_slices],
               map (\<lambda>i. int (length (members this_seg bin_memberships i)))
                   [1 ..< length bin_slices])))"

subsection \<open>The loop over the segments\<close>

text \<open>
  What the loop of \<open>bls_pulse\<close> carries from one segment to the next: the variables
  \<open>mindur\<close> and \<open>maxdur\<close>, assigned before the loop and inside it, and the four output
  arrays. (\<open>nbins\<close> is assigned afresh at the start of every round.)
\<close>

record loop_state =
  st_mindur :: int
  st_maxdur :: int
  srMax :: "fl list"
  transitDuration :: "fl list"
  transitMidTime :: "fl list"
  transitDepth :: "fl list"

text \<open>\<open>a[-1] = v\<close> on a non-empty array.\<close>

definition set_last :: "'a list \<Rightarrow> 'a \<Rightarrow> 'a list" where
  "set_last xs v = xs[length xs - 1 := v]"

text \<open>
  Lines 174 to 180: the number of bins of this round and the duration bounds it
  searches with. The bounds are recomputed only when the segment has fewer points than
  \<open>n_bins\<close>; otherwise the variables keep the values they have.
\<close>

definition effective_bins ::
  "int \<Rightarrow> real \<Rightarrow> real \<Rightarrow> real \<Rightarrow> int \<Rightarrow> loop_state \<Rightarrow> error + (int \<times> int \<times> int)" where
  "effective_bins n_bins segment_size min_duration max_duration n st =
     (if n < n_bins
      then (case convert_duration_to_bins min_duration n segment_size ''min'' of
              Inl e \<Rightarrow> Inl e
            | Inr mindur \<Rightarrow>
           (case convert_duration_to_bins max_duration n segment_size ''max'' of
              Inl e \<Rightarrow> Inl e
            | Inr maxdur \<Rightarrow> Inr (n, mindur, maxdur)))
      else Inr (n_bins, st_mindur st, st_maxdur st))"

text \<open>
  One round of the loop (lines 153 to 206, with \<open>verbose\<close> false and \<open>print_format\<close>
  \<open>'none'\<close>, their defaults), for the segment number \<open>jj\<close> with its times and fluxes.
\<close>

definition segment_step ::
  "(fl list \<Rightarrow> int \<Rightarrow> fl) \<Rightarrow> int \<Rightarrow> real \<Rightarrow> real \<Rightarrow> real \<Rightarrow> int \<Rightarrow> int
   \<Rightarrow> nat \<times> real list \<times> real list \<Rightarrow> loop_state \<Rightarrow> error + loop_state" where
  "segment_step extreme n_bins segment_size min_duration max_duration direction r_min seg st =
     (case seg of (jj, this_seg, this_flux_seg) \<Rightarrow>
      let st1 = st\<lparr>srMax := srMax st @ [NaN],
                   transitDuration := transitDuration st @ [NaN],
                   transitMidTime := transitMidTime st @ [NaN],
                   transitDepth := transitDepth st @ [NaN]\<rparr>;
          n = int (length this_seg)
      in
      (case effective_bins n_bins segment_size min_duration max_duration n st of
         Inl e \<Rightarrow> Inl e
       | Inr (nbins, mindur, maxdur) \<Rightarrow>
      (case bin_segment segment_size jj nbins this_seg this_flux_seg of
         Inl e \<Rightarrow> Inl e
       | Inr (binned_times, binned_fluxes, ppb) \<Rightarrow>
      (case calc_sr_max extreme n nbins mindur maxdur r_min direction
              binned_times binned_fluxes ppb of
         Inl e \<Rightarrow> Inl e
       | Inr (sr0, sr1, sr2, sr3) \<Rightarrow>
          let st2 = st1\<lparr>st_mindur := mindur, st_maxdur := maxdur\<rparr> in
          if isfinite sr0
          then Inr (st2\<lparr>srMax := set_last (srMax st2) sr0,
                        transitDuration := set_last (transitDuration st2) sr1,
                        transitDepth := set_last (transitDepth st2) sr2,
                        transitMidTime := set_last (transitMidTime st2) sr3\<rparr>)
          else Inr st2))))"

subsection \<open>The pipeline\<close>

record bls_result =
  srsq :: "fl list"
  duration :: "fl list"
  depth :: "fl list"
  midtime :: "fl list"

text \<open>
  The samples of segment \<open>q\<close>: those with \<open>q*segment_size <= time < (q+1)*segment_size\<close>.
\<close>

definition segment_samples :: "real \<Rightarrow> (real \<times> real) list \<Rightarrow> nat \<Rightarrow> (real \<times> real) list" where
  "segment_samples segment_size tf q =
     filter (\<lambda>p. real q * segment_size \<le> fst p \<and> fst p < real (q + 1) * segment_size) tf"

text \<open>
  \<open>r_min = int(np.ceil(min_duration / lc_samplerate))\<close>. The quotient is a numpy
  division: by zero it is infinite or NaN, and \<open>int\<close> of those raises.
\<close>

definition calc_r_min :: "real \<Rightarrow> fl \<Rightarrow> error + int" where
  "calc_r_min min_duration lc_samplerate =
     (case fdiv (Fin min_duration) lc_samplerate of
        Fin x \<Rightarrow> Inr \<lceil>x\<rceil>
      | NaN \<Rightarrow> Inl ValueError
      | _ \<Rightarrow> Inl OverflowError)"

text \<open>
  Lines 102 to 104: the samples whose flux is finite, as pairs of a time and a flux.
\<close>

definition finite_samples :: "real list \<Rightarrow> fl list \<Rightarrow> (real \<times> real) list" where
  "finite_samples time flux =
     map (\<lambda>p. (fst p, (case snd p of Fin x \<Rightarrow> x | _ \<Rightarrow> 0)))
         (filter (\<lambda>p. isfinite (snd p)) (zip time flux))"

text \<open>
  Line 127: \<open>int(np.floor((np.amax(time) - np.amin(time)) / segment_size) + 1.)\<close>.
\<close>

definition calc_nsegments :: "real list \<Rightarrow> real \<Rightarrow> int" where
  "calc_nsegments time segment_size =
     \<lfloor>(Max (set time) - Min (set time)) / segment_size\<rfloor> + 1"

text \<open>Lines 128 to 131 and the \<open>zip\<close> of line 153: the segments with their numbers.\<close>

definition make_segments ::
  "real \<Rightarrow> (real \<times> real) list \<Rightarrow> int \<Rightarrow> (nat \<times> real list \<times> real list) list" where
  "make_segments segment_size tf nsegments =
     map (\<lambda>q. (q, map fst (segment_samples segment_size tf q),
                  map snd (segment_samples segment_size tf q)))
         [0 ..< nat nsegments]"

text \<open>
  \<open>bls_pulse(time, flux, fluxerr, n_bins, segment_size, min_duration, max_duration,
  direction)\<close>. The times are finite numbers (a time that is not makes line 127 raise),
  the fluxes may be anything and the non-finite ones are dropped with their times. The
  first conversion of the durations raises for a zero segment size, and the median of no
  differences is NaN, on which line 120 raises: so line 127 divides by a non-zero number
  and takes the extremes of a non-empty array.
\<close>

definition bls_pulse ::
  "(fl list \<Rightarrow> int \<Rightarrow> fl) \<Rightarrow> real list \<Rightarrow> fl list \<Rightarrow> fl list \<Rightarrow> int \<Rightarrow> real \<Rightarrow> real \<Rightarrow> real
   \<Rightarrow> int \<Rightarrow> error + bls_result" where
  "bls_pulse extreme time flux fluxerr n_bins segment_size min_duration max_duration direction =
     (if time = [] then Inl IndexError else
      (case convert_duration_to_bins min_duration n_bins segment_size ''min'' of
         Inl e \<Rightarrow> Inl e
       | Inr mindur \<Rightarrow>
      (case convert_duration_to_bins max_duration n_bins segment_size ''max'' of
         Inl e \<Rightarrow> Inl e
       | Inr maxdur \<Rightarrow>
      if length flux \<noteq> length time then Inl IndexError else
      let tf = finite_samples time flux;
          time1 = map fst tf;
          lc_samplerate = median (diff time1)
      in
      (case calc_r_min min_duration lc_samplerate of
         Inl e \<Rightarrow> Inl e
       | Inr r_min \<Rightarrow>
      let nsegments = calc_nsegments time1 segment_size;
          segments = make_segments segment_size tf nsegments
      in
      (case for_loop segments
              (segment_step extreme n_bins segment_size min_duration max_duration
                 direction r_min)
              \<lparr>st_mindur = mindur, st_maxdur = maxdur, srMax = [],
               transitDuration = [], transitMidTime = [], transitDepth = []\<rparr> of
         Inl e \<Rightarrow> Inl e
       | Inr st \<Rightarrow>
           Inr \<lparr>srsq = srMax st, duration = transitDuration st,
                depth = transitDepth st, midtime = transitMidTime st\<rparr>)))))"

text \<open>
  Modelled from the spec: the helper \<open>extreme\<close> of the module \<open>utils\<close> is not part of
  the sources at hand. The specification says of it: the extreme value of the binned
  fluxes, most negative if the direction favours dips, most positive if it favours
  rises, of largest magnitude if the direction is 0.
\<close>

definition fabs :: "fl \<Rightarrow> fl" where
  "fabs a = (if flt a (Fin 0) then fneg a else a)"

definition spec_extreme :: "fl list \<Rightarrow> int \<Rightarrow> fl" where
  "spec_extreme xs direction =
     (if xs = [] then NaN
      else if direction < 0 then foldl (\<lambda>a b. if flt b a then b else a) (hd xs) (tl xs)
      else if 0 < direction then foldl (\<lambda>a b. if flt a b then b else a) (hd xs) (tl xs)
      else foldl (\<lambda>a b. if flt (fabs a) (fabs b) then b else a) (hd xs) (tl xs))"

subsection \<open>The binned segment of the data model\<close>

text \<open>
  The three sequences handed to the search have one entry per bin, and a bin is either
  empty (no points, and the two means are NaN) or holds points (and the two means are
  finite numbers). \<open>bin_segment\<close> produces such sequences, see \<open>bin_segment_binned_ok\<close>.
\<close>

definition binned_ok :: "int \<Rightarrow> fl list \<Rightarrow> fl list \<Rightarrow> int list \<Rightarrow> bool" where
  "binned_ok nbins binTime binFlx ppb \<longleftrightarrow>
     length binTime = nat nbins \<and> length binFlx = nat nbins \<and> length ppb = nat nbins
     \<and> list_all (\<lambda>i. (ppb ! i = 0 \<and> binTime ! i = NaN \<and> binFlx ! i = NaN)
                      \<or> (0 < ppb ! i \<and> isfinite (binTime ! i) \<and> isfinite (binFlx ! i)))
                 [0 ..< nat nbins]"



section \<open>Results about convert_duration_to_bins\<close>

text \<open>
  C4. The claim is that any mode other than \<open>'min'\<close> and \<open>'max'\<close> signals an
  invalid-argument error. The code has no such branch: its \<open>else\<close> assigns
  \<open>duration_bins = 0\<close> and returns it, under the comment "Need to add proper error
  handler here". At the mode \<open>'avg'\<close> the function returns the value 0.
\<close>

theorem convert_duration_unknown_mode_returns_zero:
  "convert_duration_to_bins 1 10 2 ''avg'' = Inr 0"
  by (simp add: convert_duration_to_bins_def)




section \<open>The two loops of calc_sr_max, unrolled\<close>


lemma slice_snoc:
  "i1 \<le> i2 \<Longrightarrow> i2 < length xs \<Longrightarrow> slice xs i1 (Suc i2) = slice xs i1 i2 @ [xs ! i2]"
  by (simp add: slice_def Suc_diff_le take_Suc_conv_app_nth)

lemma range_flux_step:
  "i1 \<le> i2 \<Longrightarrow> i2 < length binFlx \<Longrightarrow>
   fadd (foldl fadd (Fin 0) (slice binFlx i1 i2)) (binFlx ! i2) = range_flux binFlx i1 i2"
  by (simp add: range_flux_def slice_snoc)

lemma range_points_step:
  "i1 \<le> i2 \<Longrightarrow> i2 < length ppb \<Longrightarrow>
   sum_list (slice ppb i1 i2) + ppb ! i2 = range_points ppb i1 i2"
  by (simp add: range_points_def slice_snoc)

lemma sr_step_eq:
  assumes "i2 < length binFlx" "i2 < length ppb" "i2 < length binTime" "i1 \<le> i2"
  shows "sr_step extreme n mindur r_min direction binTime binFlx ppb i1 i2
           (foldl fadd (Fin 0) (slice binFlx i1 i2), sum_list (slice ppb i1 i2), b)
         = Inr (range_flux binFlx i1 i2, range_points ppb i1 i2,
                if spec_admissible n mindur r_min direction binFlx ppb (i1, i2)
                then spec_replace b (spec_record extreme n direction binTime binFlx ppb (i1, i2))
                else b)"
proof -
  have i1: "i1 < length binTime" using assms by simp
  show ?thesis
    using assms i1
    by (simp add: sr_step_def getitem_def range_flux_step range_points_step Let_def
        spec_admissible_def spec_replace_def spec_record_def spec_SR_def)
qed

lemma for_loop_sr_step:
  assumes "u \<le> length binFlx" "u \<le> length ppb" "u \<le> length binTime" "i1 \<le> a"
  shows "for_loop [a ..< u] (sr_step extreme n mindur r_min direction binTime binFlx ppb i1)
           (foldl fadd (Fin 0) (slice binFlx i1 a), sum_list (slice ppb i1 a), b)
         = Inr (foldl fadd (Fin 0) (slice binFlx i1 (max a u)), sum_list (slice ppb i1 (max a u)),
                foldl spec_replace b
                  (map (spec_record extreme n direction binTime binFlx ppb)
                     (filter (spec_admissible n mindur r_min direction binFlx ppb)
                        (map (Pair i1) [a ..< u]))))"
  using assms
proof (induction "u - a" arbitrary: a b)
  case 0
  then show ?case by (simp add: max_def)
next
  case (Suc k)
  then have lt: "a < u" by simp
  have upt: "[a ..< u] = a # [Suc a ..< u]" using lt by (simp add: upt_conv_Cons)
  have k: "k = u - Suc a" using Suc by simp
  have st: "sr_step extreme n mindur r_min direction binTime binFlx ppb i1 a
           (foldl fadd (Fin 0) (slice binFlx i1 a), sum_list (slice ppb i1 a), b)
         = Inr (foldl fadd (Fin 0) (slice binFlx i1 (Suc a)), sum_list (slice ppb i1 (Suc a)),
                if spec_admissible n mindur r_min direction binFlx ppb (i1, a)
                then spec_replace b (spec_record extreme n direction binTime binFlx ppb (i1, a))
                else b)"
    using sr_step_eq[of a binFlx ppb binTime i1] Suc.prems lt
    by (simp add: range_flux_def range_points_def)
  have m: "max (Suc a) u = max a u" using lt by simp
  show ?case
    using Suc.hyps(1)[OF k Suc.prems(1-3), of _] Suc.prems lt
    by (simp add: upt st m)
qed

lemma slice_empty: "slice xs i i = []"
  by (simp add: slice_def)

lemma sr_inner_eq:
  assumes "nat nbins \<le> length binFlx" "nat nbins \<le> length ppb" "nat nbins \<le> length binTime"
  shows "sr_inner extreme n nbins mindur maxdur r_min direction binTime binFlx ppb i1 b
         = Inr (foldl spec_replace b
                  (map (spec_record extreme n direction binTime binFlx ppb)
                     (filter (spec_admissible n mindur r_min direction binFlx ppb)
                        (map (Pair i1) [i1 ..< nat (min (int i1 + maxdur + 1) nbins)]))))"
proof -
  let ?u = "nat (min (int i1 + maxdur + 1) nbins)"
  have u: "?u \<le> length binFlx" "?u \<le> length ppb" "?u \<le> length binTime"
    using assms by linarith+
  show ?thesis
    using for_loop_sr_step[OF u order_refl, where extreme = extreme and n = n
        and mindur = mindur and r_min = r_min and direction = direction and b = b]
    by (simp add: sr_inner_def slice_empty)
qed

lemma for_loop_sr_inner:
  assumes "nat nbins \<le> length binFlx" "nat nbins \<le> length ppb" "nat nbins \<le> length binTime"
  shows "for_loop starts
           (sr_inner extreme n nbins mindur maxdur r_min direction binTime binFlx ppb) b
         = Inr (foldl spec_replace b
                  (map (spec_record extreme n direction binTime binFlx ppb)
                     (filter (spec_admissible n mindur r_min direction binFlx ppb)
                        (concat (map (\<lambda>i1. map (Pair i1)
                                        [i1 ..< nat (min (int i1 + maxdur + 1) nbins)])
                                     starts)))))"
proof (induction starts arbitrary: b)
  case Nil
  show ?case by simp
next
  case (Cons i1 starts)
  show ?case
    by (simp add: sr_inner_eq[OF assms, where ?i1.0 = i1 and b = b] Cons.IH)
qed

lemma calc_sr_max_eq:
  assumes "nat nbins \<le> length binFlx" "nat nbins \<le> length ppb" "nat nbins \<le> length binTime"
  shows "calc_sr_max extreme n nbins mindur maxdur r_min direction binTime binFlx ppb
         = Inr (let b = foldl spec_replace sr_init
                      (map (spec_record extreme n direction binTime binFlx ppb)
                         (filter (spec_admissible n mindur r_min direction binFlx ppb)
                            (spec_pairs nbins maxdur)))
                in (best_SR b, thisDuration b, thisDepth b, thisMidTime b))"
  by (simp add: calc_sr_max_def for_loop_sr_inner[OF assms] spec_pairs_def Let_def)

lemma set_spec_pairs:
  "set (spec_pairs nbins maxdur)
   = {(i1, i2). int i1 < nbins \<and> i1 \<le> i2 \<and> int i2 \<le> min (int i1 + maxdur) (nbins - 1)}"
proof (rule set_eqI)
  fix p :: "nat \<times> nat"
  obtain i1 i2 where p: "p = (i1, i2)" by (cases p)
  have "(i1, i2) \<in> set (spec_pairs nbins maxdur)
        \<longleftrightarrow> i1 < nat nbins \<and> i1 \<le> i2 \<and> i2 < nat (min (int i1 + maxdur + 1) nbins)"
    unfolding spec_pairs_def set_concat set_map set_upt by fastforce
  also have "\<dots> \<longleftrightarrow> int i1 < nbins \<and> i1 \<le> i2 \<and> int i2 \<le> min (int i1 + maxdur) (nbins - 1)"
    by auto
  finally show "p \<in> set (spec_pairs nbins maxdur)
        \<longleftrightarrow> p \<in> {(i1, i2). int i1 < nbins \<and> i1 \<le> i2
                            \<and> int i2 \<le> min (int i1 + maxdur) (nbins - 1)}"
    by (simp add: p)
qed



section \<open>NaN and finite values in the sums of a range\<close>


lemma fadd_not_NaN: "fadd a b \<noteq> NaN \<Longrightarrow> a \<noteq> NaN \<and> b \<noteq> NaN"
  by (cases a; cases b) auto

lemma foldl_fadd_not_NaN:
  "foldl fadd a xs \<noteq> NaN \<Longrightarrow> a \<noteq> NaN \<and> (\<forall>x \<in> set xs. x \<noteq> NaN)"
proof (induction xs arbitrary: a)
  case Nil
  then show ?case by simp
next
  case (Cons x xs)
  from Cons.IH[of "fadd a x"] Cons.prems
  have ax: "fadd a x \<noteq> NaN" and rest: "\<forall>y \<in> set xs. y \<noteq> NaN" by simp_all
  from fadd_not_NaN[OF ax] rest show ?case by simp
qed

lemma nth_in_slice:
  assumes "i1 \<le> k" "k \<le> i2" "i2 < length xs"
  shows "xs ! k \<in> set (slice xs i1 (Suc i2))"
proof -
  have "slice xs i1 (Suc i2) ! (k - i1) = xs ! k"
    using assms by (simp add: slice_def)
  moreover have "k - i1 < length (slice xs i1 (Suc i2))"
    using assms by (simp add: slice_def)
  ultimately show ?thesis by (metis nth_mem)
qed






lemma binned_ok_nth:
  assumes "binned_ok nbins binTime binFlx ppb" "i < nat nbins"
  shows "(ppb ! i = 0 \<and> binTime ! i = NaN \<and> binFlx ! i = NaN)
         \<or> (0 < ppb ! i \<and> isfinite (binTime ! i) \<and> isfinite (binFlx ! i))"
  using assms by (simp add: binned_ok_def list_all_iff)




section \<open>The replacement rule keeps the first maximum\<close>





section \<open>The pairs come in the order of the loops\<close>









section \<open>Results about calc_sr_max\<close>

text \<open>
  C1. For every start bin \<open>i1\<close> in \<open>[0, nbins)\<close> the inner accumulation visits \<open>i2\<close> from
  \<open>i1\<close> up to \<open>min(i1 + maxdur, nbins - 1)\<close>, and a pair \<open>(i1, i2)\<close> contributes a signal
  residue \<open>s^2 / (r * (n - r))\<close> if and only if \<open>i2 - i1 >= mindur\<close>, \<open>r >= r_min\<close>,
  \<open>direction * s >= 0\<close> and \<open>r < n\<close>, with \<open>s\<close> the sum of \<open>binFlx[i1..i2]\<close> and \<open>r\<close> the
  sum of \<open>ppb[i1..i2]\<close>. Stated on the code: when the three sequences have an entry for
  every bin, the two loops return what the replacement rule, run over the records of
  exactly the admissible pairs among the visited ones in loop order, leaves; the visited
  pairs are those of the claim; admissibility is the four conditions on the two sums; and
  the residue recorded for a pair is the quotient of the claim.
\<close>

theorem calc_sr_max_scores_admissible_pairs:
  assumes "nat nbins \<le> length binFlx" "nat nbins \<le> length ppb" "nat nbins \<le> length binTime"
  shows "calc_sr_max extreme n nbins mindur maxdur r_min direction binTime binFlx ppb
           = Inr (let b = foldl spec_replace sr_init
                        (map (spec_record extreme n direction binTime binFlx ppb)
                           (filter (spec_admissible n mindur r_min direction binFlx ppb)
                              (spec_pairs nbins maxdur)))
                  in (best_SR b, thisDuration b, thisDepth b, thisMidTime b))
       \<and> set (spec_pairs nbins maxdur)
           = {(i1, i2). int i1 < nbins \<and> i1 \<le> i2 \<and> int i2 \<le> min (int i1 + maxdur) (nbins - 1)}
       \<and> (\<forall>i1 i2. spec_admissible n mindur r_min direction binFlx ppb (i1, i2)
             \<longleftrightarrow> (mindur \<le> int i2 - int i1
                  \<and> r_min \<le> sum_list (slice ppb i1 (i2 + 1))
                  \<and> fge (fmul (fl_of_int direction)
                            (foldl fadd (Fin 0) (slice binFlx i1 (i2 + 1)))) (Fin 0)
                  \<and> sum_list (slice ppb i1 (i2 + 1)) < n))
       \<and> (\<forall>i1 i2. best_SR (spec_record extreme n direction binTime binFlx ppb (i1, i2))
             = fdiv (fmul (foldl fadd (Fin 0) (slice binFlx i1 (i2 + 1)))
                          (foldl fadd (Fin 0) (slice binFlx i1 (i2 + 1))))
                    (fl_of_int (sum_list (slice ppb i1 (i2 + 1))
                                * (n - sum_list (slice ppb i1 (i2 + 1))))))"
proof (intro conjI)
  show "calc_sr_max extreme n nbins mindur maxdur r_min direction binTime binFlx ppb
           = Inr (let b = foldl spec_replace sr_init
                        (map (spec_record extreme n direction binTime binFlx ppb)
                           (filter (spec_admissible n mindur r_min direction binFlx ppb)
                              (spec_pairs nbins maxdur)))
                  in (best_SR b, thisDuration b, thisDepth b, thisMidTime b))"
    by (rule calc_sr_max_eq[OF assms])
next
  show "set (spec_pairs nbins maxdur)
           = {(i1, i2). int i1 < nbins \<and> i1 \<le> i2 \<and> int i2 \<le> min (int i1 + maxdur) (nbins - 1)}"
    by (rule set_spec_pairs)
next
  show "\<forall>i1 i2. spec_admissible n mindur r_min direction binFlx ppb (i1, i2)
             \<longleftrightarrow> (mindur \<le> int i2 - int i1
                  \<and> r_min \<le> sum_list (slice ppb i1 (i2 + 1))
                  \<and> fge (fmul (fl_of_int direction)
                            (foldl fadd (Fin 0) (slice binFlx i1 (i2 + 1)))) (Fin 0)
                  \<and> sum_list (slice ppb i1 (i2 + 1)) < n)"
    by (simp add: spec_admissible_def range_flux_def range_points_def)
next
  show "\<forall>i1 i2. best_SR (spec_record extreme n direction binTime binFlx ppb (i1, i2))
             = fdiv (fmul (foldl fadd (Fin 0) (slice binFlx i1 (i2 + 1)))
                          (foldl fadd (Fin 0) (slice binFlx i1 (i2 + 1))))
                    (fl_of_int (sum_list (slice ppb i1 (i2 + 1))
                                * (n - sum_list (slice ppb i1 (i2 + 1)))))"
    by (simp add: spec_record_def spec_SR_def range_flux_def range_points_def)
qed

theorem calc_sr_max_scores_admissible_pairs_witness:
  "nat 4 \<le> length [Fin 0, Fin (- 10), Fin (- 10), Fin 0]
   \<and> nat 4 \<le> length [1, 1, 1, 1 :: int]
   \<and> nat 4 \<le> length [Fin 4, Fin 5, Fin 6, Fin 7]
   \<and> calc_sr_max spec_extreme 4 4 1 1 2 (- 1) [Fin 4, Fin 5, Fin 6, Fin 7]
        [Fin 0, Fin (- 10), Fin (- 10), Fin 0] [1, 1, 1, 1]
      = Inr (Fin 100, Fin 1, Fin (- 10), Fin (11 / 2))
   \<and> filter (spec_admissible 4 1 2 (- 1) [Fin 0, Fin (- 10), Fin (- 10), Fin 0] [1, 1, 1, 1])
        (spec_pairs 4 1) = [(0, 1), (1, 2), (2, 3)]"
proof -
  have h: "nat 4 \<le> length [Fin 0, Fin (- 10), Fin (- 10), Fin 0]"
    "nat 4 \<le> length [1, 1, 1, 1 :: int]"
    "nat 4 \<le> length [Fin 4, Fin 5, Fin 6, Fin 7]" by simp_all
  have f: "filter (spec_admissible 4 1 2 (- 1) [Fin 0, Fin (- 10), Fin (- 10), Fin 0] [1, 1, 1, 1])
        (spec_pairs 4 1) = [(0, 1), (1, 2), (2, 3)]" by code_simp
  have v: "(let b = foldl spec_replace sr_init
                (map (spec_record spec_extreme 4 (- 1) [Fin 4, Fin 5, Fin 6, Fin 7]
                        [Fin 0, Fin (- 10), Fin (- 10), Fin 0] [1, 1, 1, 1])
                     [(0, 1), (1, 2), (2, 3)])
            in (best_SR b, thisDuration b, thisDepth b, thisMidTime b))
           = (Fin 100, Fin 1, Fin (- 10), Fin (11 / 2))" by code_simp
  from calc_sr_max_scores_admissible_pairs [OF h, of spec_extreme 4 1 1 2 "- 1", THEN conjunct1]
  have "calc_sr_max spec_extreme 4 4 1 1 2 (- 1) [Fin 4, Fin 5, Fin 6, Fin 7]
        [Fin 0, Fin (- 10), Fin (- 10), Fin 0] [1, 1, 1, 1]
      = Inr (Fin 100, Fin 1, Fin (- 10), Fin (11 / 2))"
    unfolding f v .
  with h f show ?thesis by simp
qed




section \<open>The binner and one round of the segment loop\<close>


lemma linspace_length: "linspace a b num = Inr xs \<Longrightarrow> length xs = nat num"
  by (auto simp add: linspace_def split: if_splits)

lemma digitize_length: "digitize xs bins = Inr bm \<Longrightarrow> length bm = length xs"
  by (auto simp add: digitize_def split: if_splits)

lemma members_empty_iff:
  "length a = length bm \<Longrightarrow> members a bm i = [] \<longleftrightarrow> i \<notin> set bm"
proof (induction a bm rule: list_induct2)
  case Nil
  show ?case by (simp add: members_def)
next
  case (Cons x xs y ys)
  then show ?case by (auto simp add: members_def)
qed

lemma mean_cases: "(xs = [] \<and> mean xs = NaN) \<or> (xs \<noteq> [] \<and> isfinite (mean xs))"
  by (simp add: mean_def)

lemma bin_segment_binned_ok:
  assumes b: "bin_segment segment_size jj nbins this_seg this_flux_seg = Inr (binTime, binFlx, ppb)"
    and len: "length this_flux_seg = length this_seg"
  shows "binned_ok nbins binTime binFlx ppb"
proof -
  from b obtain bin_slices bm where
    ls: "linspace (real jj * segment_size) (real (jj + 1) * segment_size) (nbins + 1) = Inr bin_slices"
    and dg: "digitize this_seg bin_slices = Inr bm"
    and bt: "binTime = map (\<lambda>i. mean (members this_seg bm i)) [1 ..< length bin_slices]"
    and bf: "binFlx = map (\<lambda>i. mean (members this_flux_seg bm i)) [1 ..< length bin_slices]"
    and pp: "ppb = map (\<lambda>i. int (length (members this_seg bm i))) [1 ..< length bin_slices]"
    by (auto simp add: bin_segment_def split: sum.splits)
  have "0 \<le> nbins + 1" using ls by (auto simp add: linspace_def split: if_splits)
  then have n: "length bin_slices - 1 = nat nbins" using linspace_length[OF ls] by simp
  have lbm: "length this_seg = length bm" "length this_flux_seg = length bm"
    using digitize_length[OF dg] len by simp_all
  have each: "\<And>i. i < nat nbins \<Longrightarrow>
      (ppb ! i = 0 \<and> binTime ! i = NaN \<and> binFlx ! i = NaN)
      \<or> (0 < ppb ! i \<and> isfinite (binTime ! i) \<and> isfinite (binFlx ! i))"
  proof -
    fix i assume i: "i < nat nbins"
    then have i': "i < length bin_slices - 1" using n by simp
    have e: "members this_seg bm (1 + i) = [] \<longleftrightarrow> members this_flux_seg bm (1 + i) = []"
      using members_empty_iff[OF lbm(1)] members_empty_iff[OF lbm(2)] by simp
    show "(ppb ! i = 0 \<and> binTime ! i = NaN \<and> binFlx ! i = NaN)
      \<or> (0 < ppb ! i \<and> isfinite (binTime ! i) \<and> isfinite (binFlx ! i))"
      using i' e mean_cases[of "members this_seg bm (1 + i)"]
        mean_cases[of "members this_flux_seg bm (1 + i)"]
      by (auto simp add: bt bf pp)
  qed
  show ?thesis
    using n each by (simp add: binned_ok_def list_all_iff bt bf pp)
qed

















section \<open>Results about bls_pulse\<close>

















text \<open>
  C10. Two calls of the pipeline that differ only in the flux-error sequence return the
  same result: \<open>fluxerr\<close> is a parameter of \<open>bls_pulse\<close> that its body never reads.
\<close>

theorem bls_pulse_ignores_fluxerr:
  "bls_pulse extreme time flux fluxerr1 n_bins segment_size min_duration max_duration direction
   = bls_pulse extreme time flux fluxerr2 n_bins segment_size min_duration max_duration direction"
  by (simp add: bls_pulse_def)

text \<open>
  C9. A bin without member samples has a non-finite mean flux and a point count of 0,
  and no range \<open>[i1, i2]\<close> that contains such a bin is recorded as the winning
  candidate. Stated on the output of the binner: where the point count of bin \<open>k\<close> is
  0 its mean flux is not finite; for every range that contains \<open>k\<close> the sum \<open>s\<close> is
  not finite, the test \<open>direction * s >= 0\<close> fails and the pair is not admissible; and
  the body of the inner loop, run at \<open>(i1, i2)\<close> on the sums accumulated up to there,
  returns the best record it was given, unchanged.
\<close>

theorem empty_bin_never_wins:
  assumes b: "bin_segment segment_size jj nbins this_seg this_flux_seg = Inr (binTime, binFlx, ppb)"
    and len: "length this_flux_seg = length this_seg"
    and k: "i1 \<le> k" "k \<le> i2" "i2 < nat nbins"
    and e: "ppb ! k = 0"
  shows "\<not> isfinite (binFlx ! k)
       \<and> \<not> isfinite (range_flux binFlx i1 i2)
       \<and> \<not> fge (fmul (fl_of_int direction) (range_flux binFlx i1 i2)) (Fin 0)
       \<and> \<not> spec_admissible n mindur r_min direction binFlx ppb (i1, i2)
       \<and> sr_step extreme n mindur r_min direction binTime binFlx ppb i1 i2
           (foldl fadd (Fin 0) (slice binFlx i1 i2), sum_list (slice ppb i1 i2), best)
         = Inr (range_flux binFlx i1 i2, range_points ppb i1 i2, best)"
proof -
  have ok: "binned_ok nbins binTime binFlx ppb" using bin_segment_binned_ok[OF b len] .
  have l: "i2 < length binFlx" "i2 < length ppb" "i2 < length binTime"
    using ok k by (simp_all add: binned_ok_def)
  have kk: "k < nat nbins" using k by simp
  have nan: "binFlx ! k = NaN" using binned_ok_nth[OF ok kk] e by auto
  have s: "range_flux binFlx i1 i2 = NaN"
  proof (rule ccontr)
    assume "range_flux binFlx i1 i2 \<noteq> NaN"
    then have "foldl fadd (Fin 0) (slice binFlx i1 (Suc i2)) \<noteq> NaN"
      by (simp add: range_flux_def)
    then have "\<forall>x \<in> set (slice binFlx i1 (Suc i2)). x \<noteq> NaN"
      by (rule foldl_fadd_not_NaN[THEN conjunct2])
    then show False using nth_in_slice[OF k(1,2) l(1)] nan by blast
  qed
  have t: "\<not> fge (fmul (fl_of_int direction) (range_flux binFlx i1 i2)) (Fin 0)"
    by (simp add: s fl_of_int_def fge_def)
  have a: "\<not> spec_admissible n mindur r_min direction binFlx ppb (i1, i2)"
    using t by (simp add: spec_admissible_def)
  have i12: "i1 \<le> i2" using k by simp
  show ?thesis
    using sr_step_eq[OF l i12, of extreme n mindur r_min direction best] a t
    by (simp add: nan s)
qed


theorem empty_bin_never_wins_witness:
  "bin_segment 4 0 4 [0, 1, 3] [1, 2, 3]
     = Inr ([Fin 0, Fin 1, NaN, Fin 3], [Fin 1, Fin 2, NaN, Fin 3], [1, 1, 0, 1])
   \<and> length [1, 2, 3 :: real] = length [0, 1, 3 :: real]
   \<and> (1 :: nat) \<le> 2 \<and> (2 :: nat) \<le> 3 \<and> (3 :: nat) < nat 4
   \<and> [1, 1, 0, 1 :: int] ! 2 = 0
   \<and> \<not> isfinite ([Fin 1, Fin 2, NaN, Fin 3] ! 2)
   \<and> \<not> spec_admissible 3 1 0 0 [Fin 1, Fin 2, NaN, Fin 3] [1, 1, 0, 1] (1, 3)
   \<and> sr_step spec_extreme 3 1 0 0 [Fin 0, Fin 1, NaN, Fin 3] [Fin 1, Fin 2, NaN, Fin 3]
        [1, 1, 0, 1] 1 3
        (foldl fadd (Fin 0) (slice [Fin 1, Fin 2, NaN, Fin 3] 1 3),
         sum_list (slice [1, 1, 0, 1] 1 3), sr_init)
      = Inr (range_flux [Fin 1, Fin 2, NaN, Fin 3] 1 3, range_points [1, 1, 0, 1] 1 3, sr_init)"
proof -
  have b: "bin_segment 4 0 4 [0, 1, 3] [1, 2, 3]
     = Inr ([Fin 0, Fin 1, NaN, Fin 3], [Fin 1, Fin 2, NaN, Fin 3], [1, 1, 0, 1])"
    by code_simp
  have h: "length [1, 2, 3 :: real] = length [0, 1, 3 :: real]"
    "(1 :: nat) \<le> 2" "(2 :: nat) \<le> 3" "(3 :: nat) < nat 4" "[1, 1, 0, 1 :: int] ! 2 = 0"
    by simp_all
  from empty_bin_never_wins [OF b h, of 0 3 1 0 spec_extreme sr_init] b h
  show ?thesis by blast
qed

text \<open>
  C3. The claim is that the result of a segment depends on that segment's samples and on
  the two pipeline-wide values only, and that the duration bounds used for a segment are
  a function of that segment alone. The loop assigns \<open>mindur\<close> and \<open>maxdur\<close> when a
  segment has fewer points than \<open>n_bins\<close> and never restores them, so a later segment
  with enough points is searched with the bounds of the earlier one. The two light
  curves below have the same samples in segment 1, the same median spacing and hence the
  same \<open>r_min\<close>; they differ in segment 0 only (four points, or a single one). The
  results for segment 1 differ.
\<close>

theorem bls_pulse_segment_depends_on_earlier_segment:
  "segment_samples 4 (finite_samples [0, 1, 2, 3, 4, 5, 6, 7]
       [Fin 0, Fin 0, Fin 0, Fin 0, Fin 0, Fin (- 10), Fin (- 10), Fin 0]) 1
   = segment_samples 4 (finite_samples [0, 4, 5, 6, 7]
       [Fin 0, Fin 0, Fin (- 10), Fin (- 10), Fin 0]) 1
   \<and> median (diff [0, 1, 2, 3, 4, 5, 6, 7]) = median (diff [0, 4, 5, 6, 7])
   \<and> bls_pulse spec_extreme [0, 1, 2, 3, 4, 5, 6, 7]
        [Fin 0, Fin 0, Fin 0, Fin 0, Fin 0, Fin (- 10), Fin (- 10), Fin 0] [] 4 4 2 3 (- 1)
      = Inr \<lparr>srsq = [Fin 0, Fin (400 / 3)], duration = [Fin 2, Fin 2],
             depth = [Fin 0, Fin (- 10)], midtime = [Fin 1, Fin 5]\<rparr>
   \<and> bls_pulse spec_extreme [0, 4, 5, 6, 7]
        [Fin 0, Fin 0, Fin (- 10), Fin (- 10), Fin 0] [] 4 4 2 3 (- 1)
      = Inr \<lparr>srsq = [NaN, Fin 100], duration = [NaN, Fin 1],
             depth = [NaN, Fin (- 10)], midtime = [NaN, Fin (11 / 2)]\<rparr>"
proof (intro conjI)
  show "segment_samples 4 (finite_samples [0, 1, 2, 3, 4, 5, 6, 7]
       [Fin 0, Fin 0, Fin 0, Fin 0, Fin 0, Fin (- 10), Fin (- 10), Fin 0]) 1
   = segment_samples 4 (finite_samples [0, 4, 5, 6, 7]
       [Fin 0, Fin 0, Fin (- 10), Fin (- 10), Fin 0]) 1"
    by code_simp
  show "median (diff [0, 1, 2, 3, 4, 5, 6, 7]) = median (diff [0, 4, 5, 6, 7])"
    by code_simp
  show "bls_pulse spec_extreme [0, 1, 2, 3, 4, 5, 6, 7]
        [Fin 0, Fin 0, Fin 0, Fin 0, Fin 0, Fin (- 10), Fin (- 10), Fin 0] [] 4 4 2 3 (- 1)
      = Inr \<lparr>srsq = [Fin 0, Fin (400 / 3)], duration = [Fin 2, Fin 2],
             depth = [Fin 0, Fin (- 10)], midtime = [Fin 1, Fin 5]\<rparr>"
    by code_simp
  show "bls_pulse spec_extreme [0, 4, 5, 6, 7]
        [Fin 0, Fin 0, Fin (- 10), Fin (- 10), Fin 0] [] 4 4 2 3 (- 1)
      = Inr \<lparr>srsq = [NaN, Fin 100], duration = [NaN, Fin 1],
             depth = [NaN, Fin (- 10)], midtime = [NaN, Fin (11 / 2)]\<rparr>"
    by code_simp
qed

text \<open>
  C6. The claim is that the winning pair of a segment spans at least \<open>minDurBins\<close> and
  at most \<open>maxDurBins\<close> bins, the bounds being those of the segment's own bin count.
  In the light curve below, with \<open>n_bins = 4\<close>, segment 1 has four points and four
  bins, for which the bounds are 2 and 3. Segment 0 has one point and leaves the bounds
  1 and 1 behind; round 1 searches with them, and the pair \<open>(1, 2)\<close> wins: a span of one
  bin, reported as a duration of one day with bins one day apart.
\<close>

theorem bls_pulse_winner_shorter_than_min_duration:
  "convert_duration_to_bins 2 4 4 ''min'' = Inr 2
   \<and> convert_duration_to_bins 3 4 4 ''max'' = Inr 3
   \<and> segment_step spec_extreme 4 4 2 3 (- 1) 2 (0, [0], [0])
        \<lparr>st_mindur = 2, st_maxdur = 3, srMax = [], transitDuration = [],
         transitMidTime = [], transitDepth = []\<rparr>
      = Inr \<lparr>st_mindur = 1, st_maxdur = 1, srMax = [NaN], transitDuration = [NaN],
             transitMidTime = [NaN], transitDepth = [NaN]\<rparr>
   \<and> effective_bins 4 4 2 3 4
        \<lparr>st_mindur = 1, st_maxdur = 1, srMax = [NaN], transitDuration = [NaN],
         transitMidTime = [NaN], transitDepth = [NaN]\<rparr>
      = Inr (4, 1, 1)
   \<and> bin_segment 4 1 4 [4, 5, 6, 7] [0, - 10, - 10, 0]
      = Inr ([Fin 4, Fin 5, Fin 6, Fin 7], [Fin 0, Fin (- 10), Fin (- 10), Fin 0], [1, 1, 1, 1])
   \<and> spec_record spec_extreme 4 (- 1) [Fin 4, Fin 5, Fin 6, Fin 7]
        [Fin 0, Fin (- 10), Fin (- 10), Fin 0] [1, 1, 1, 1] (1, 2)
      = \<lparr>best_SR = Fin 100, thisDuration = Fin 1, thisDepth = Fin (- 10),
         thisMidTime = Fin (11 / 2)\<rparr>
   \<and> segment_step spec_extreme 4 4 2 3 (- 1) 2 (1, [4, 5, 6, 7], [0, - 10, - 10, 0])
        \<lparr>st_mindur = 1, st_maxdur = 1, srMax = [NaN], transitDuration = [NaN],
         transitMidTime = [NaN], transitDepth = [NaN]\<rparr>
      = Inr \<lparr>st_mindur = 1, st_maxdur = 1, srMax = [NaN, Fin 100],
             transitDuration = [NaN, Fin 1], transitMidTime = [NaN, Fin (11 / 2)],
             transitDepth = [NaN, Fin (- 10)]\<rparr>
   \<and> bls_pulse spec_extreme [0, 4, 5, 6, 7]
        [Fin 0, Fin 0, Fin (- 10), Fin (- 10), Fin 0] [] 4 4 2 3 (- 1)
      = Inr \<lparr>srsq = [NaN, Fin 100], duration = [NaN, Fin 1],
             depth = [NaN, Fin (- 10)], midtime = [NaN, Fin (11 / 2)]\<rparr>"
  by (intro conjI; code_simp)


end
